theory Spec2Isabelle
  imports Main "HOL-Library.List_Lexorder"
begin

section \<open>Python values\<close>

text \<open>
  A Python \<^verbatim>\<open>str\<close> is a finite sequence of Unicode code points. A code point is
  modelled as a natural number, a string as a list of them; \<open>lit\<close> turns an ASCII
  literal into such a string. Python compares strings lexicographically by code point,
  which is the order \<open>HOL-Library.List_Lexorder\<close> puts on lists.
\<close>

type_synonym pystr = "nat list"

definition lit :: "string \<Rightarrow> pystr" where
  "lit s = map of_char s"

text \<open>\<^verbatim>\<open>sep.join(xs)\<close> for a list of strings.\<close>

fun join :: "pystr \<Rightarrow> pystr list \<Rightarrow> pystr" where
  "join sep [] = []"
| "join sep [x] = x"
| "join sep (x # y # ys) = x @ sep @ join sep (y # ys)"

section \<open>Text aggregator\<close>

text \<open>
  A row of the data frame built from \<^verbatim>\<open>fetch_notion_rows\<close>: the two columns are the
  name and the text of a record, both strings (the name is never empty, the text may be).
\<close>

record person_record =
  row_name :: pystr
  row_text :: pystr

text \<open>
  \<^verbatim>\<open>df.groupby(NAME)[TEXT]\<close>: pandas groups the rows by key with its default
  \<^verbatim>\<open>sort=True\<close>, so the groups come in ascending order of the key, and the rows of
  one group keep their order in the frame.
\<close>

definition groupby_name :: "person_record list \<Rightarrow> (pystr \<times> pystr list) list" where
  "groupby_name df =
     map (\<lambda>k. (k, map row_text (filter (\<lambda>r. row_name r = k) df)))
       (sort (remdups (map row_name df)))"

text \<open>
  \<^verbatim>\<open>grouped = df.groupby(NAME)[TEXT].apply(lambda s: "\n\n".join([x for x in s if x])).reset_index()\<close>
\<close>

definition grouped :: "person_record list \<Rightarrow> person_record list" where
  "grouped df =
     map (\<lambda>(k, s). \<lparr>row_name = k, row_text = join (lit ''\<newline>\<newline>'') (filter (\<lambda>x. x \<noteq> []) s)\<rparr>)
       (groupby_name df)"

text \<open>
  The order the specification words promise: every identifier once, at the place of its
  first occurrence.
\<close>

fun first_seen :: "'a list \<Rightarrow> 'a list" where
  "first_seen [] = []"
| "first_seen (x # xs) = x # filter (\<lambda>y. y \<noteq> x) (first_seen xs)"

section \<open>Properties of the text aggregator\<close>

lemma grouped_names: "map row_name (grouped df) = sort (remdups (map row_name df))"
  by (simp add: grouped_def groupby_name_def comp_def)

lemma grouped_text:
  assumes "c \<in> set (grouped df)"
  shows "row_text c =
    join (lit ''\<newline>\<newline>'') (filter (\<lambda>x. x \<noteq> []) (map row_text (filter (\<lambda>r. row_name r = row_name c) df)))"
  using assms by (auto simp: grouped_def groupby_name_def)

text \<open>
  C1, as the code has it: one corpus per distinct identifier, the corpora in ascending
  order of identifier (code-point order, not first-seen order), and the text of each the
  double-newline join of the non-empty texts of its records in input order.
\<close>

theorem grouped_sorted_by_name:
  "sorted_wrt (<) (map row_name (grouped df))
   \<and> set (map row_name (grouped df)) = row_name ` set df
   \<and> (\<forall>c \<in> set (grouped df).
        row_text c =
          join (lit ''\<newline>\<newline>'')
            (filter (\<lambda>x. x \<noteq> []) (map row_text (filter (\<lambda>r. row_name r = row_name c) df))))"
proof -
  have "sorted (sort (remdups (map row_name df)))" and "distinct (sort (remdups (map row_name df)))"
    by simp_all
  then have "sorted_wrt (<) (map row_name (grouped df))"
    by (simp add: grouped_names strict_sorted_iff)
  moreover have "set (map row_name (grouped df)) = row_name ` set df"
    by (simp add: grouped_names)
  ultimately show ?thesis
    using grouped_text by blast
qed

theorem grouped_sorted_by_name_witness:
  "grouped [\<lparr>row_name = lit ''b'', row_text = lit ''x''\<rparr>,
            \<lparr>row_name = lit ''a'', row_text = lit ''''\<rparr>,
            \<lparr>row_name = lit ''b'', row_text = lit ''z''\<rparr>]
     = [\<lparr>row_name = lit ''a'', row_text = lit ''''\<rparr>,
        \<lparr>row_name = lit ''b'', row_text = lit ''x\<newline>\<newline>z''\<rparr>]
   \<and> sorted_wrt (<) (map row_name (grouped
          [\<lparr>row_name = lit ''b'', row_text = lit ''x''\<rparr>,
           \<lparr>row_name = lit ''a'', row_text = lit ''''\<rparr>,
           \<lparr>row_name = lit ''b'', row_text = lit ''z''\<rparr>]))"
  using grouped_sorted_by_name [of "[\<lparr>row_name = lit ''b'', row_text = lit ''x''\<rparr>,
            \<lparr>row_name = lit ''a'', row_text = lit ''''\<rparr>,
            \<lparr>row_name = lit ''b'', row_text = lit ''z''\<rparr>]"]
  by (simp add: grouped_def groupby_name_def lit_def)

theorem grouped_not_first_seen:
  "map row_name (grouped [\<lparr>row_name = lit ''b'', row_text = lit ''x''\<rparr>,
                          \<lparr>row_name = lit ''a'', row_text = lit ''y''\<rparr>])
     \<noteq> first_seen (map row_name [\<lparr>row_name = lit ''b'', row_text = lit ''x''\<rparr>,
                                 \<lparr>row_name = lit ''a'', row_text = lit ''y''\<rparr>])"
  by (simp add: grouped_def groupby_name_def lit_def)

end
